theory Spec2Isabelle
  imports Main
begin

section \<open>The bot template deployer of the botservice command module\<close>

text \<open>
  A shallow embedding of \<^verbatim>\<open>bot_template_deployer.py\<close> (class \<^verbatim>\<open>BotTemplateDeployer\<close>).
  Python strings are modelled as Isabelle strings, a character standing for a code point
  below 256. Exceptions are values of the type \<open>error\<close>; a function that may raise
  returns \<open>error + 'a\<close>, with \<open>Inl\<close> for the exception.
\<close>

subsection \<open>Exceptions and Python values\<close>

datatype error =
    CLIError string
  | IndexError
  | AttributeError
  | TypeError
  | ValueError

text \<open>
  The Python values that occur as template parameters and as parsed JSON documents:
  \<^verbatim>\<open>None\<close>, booleans, integers, strings, lists and dictionaries. A dictionary is the list
  of its items in insertion order. Floating-point numbers are not represented.
\<close>

datatype pyval =
    PNone
  | PBool bool
  | PInt int
  | PStr string
  | PList "pyval list"
  | PDict "(pyval \<times> pyval) list"

type_synonym pydict = "(pyval \<times> pyval) list"

text \<open>Truth value of a Python object, as tested by \<^verbatim>\<open>if obj:\<close>.\<close>

fun truthy :: "pyval \<Rightarrow> bool" where
  "truthy PNone = False"
| "truthy (PBool b) = b"
| "truthy (PInt i) = (i \<noteq> 0)"
| "truthy (PStr s) = (s \<noteq> [])"
| "truthy (PList xs) = (xs \<noteq> [])"
| "truthy (PDict kvs) = (kvs \<noteq> [])"

text \<open>
  Equality of dictionary keys: booleans and integers compare by their numeric value
  (\<^verbatim>\<open>True == 1\<close>), every other key only equals itself.
\<close>

fun num_of :: "pyval \<Rightarrow> int option" where
  "num_of (PBool b) = Some (if b then 1 else 0)"
| "num_of (PInt i) = Some i"
| "num_of _ = None"

definition key_eq :: "pyval \<Rightarrow> pyval \<Rightarrow> bool" where
  "key_eq a b =
     (case num_of a of
        Some m \<Rightarrow> (case num_of b of Some n \<Rightarrow> m = n | None \<Rightarrow> False)
      | None \<Rightarrow> (case num_of b of Some n \<Rightarrow> False | None \<Rightarrow> a = b))"

text \<open>Lists and dictionaries cannot be keys (\<^verbatim>\<open>TypeError: unhashable type\<close>).\<close>

fun hashable :: "pyval \<Rightarrow> bool" where
  "hashable (PList xs) = False"
| "hashable (PDict kvs) = False"
| "hashable _ = True"

text \<open>
  \<^verbatim>\<open>d[k] = v\<close>: an existing key keeps its position (and its key object), a new key is
  appended.
\<close>

fun dict_setitem :: "pydict \<Rightarrow> pyval \<Rightarrow> pyval \<Rightarrow> pydict" where
  "dict_setitem [] k v = [(k, v)]"
| "dict_setitem ((k', v') # d) k v =
     (if key_eq k' k then (k', v) # d else (k', v') # dict_setitem d k v)"

text \<open>\<^verbatim>\<open>d.get(k)\<close>, with \<open>None\<close> for a missing key.\<close>

fun dict_lookup :: "pydict \<Rightarrow> pyval \<Rightarrow> pyval option" where
  "dict_lookup [] k = None"
| "dict_lookup ((k', v') # d) k = (if key_eq k' k then Some v' else dict_lookup d k)"

text \<open>
  \<^verbatim>\<open>obj.get(k, default)\<close>: only a dictionary has the method; on any other value of
  \<open>pyval\<close> the attribute lookup raises \<^verbatim>\<open>AttributeError\<close>.
\<close>

definition py_get :: "pyval \<Rightarrow> pyval \<Rightarrow> pyval \<Rightarrow> error + pyval" where
  "py_get obj k dflt =
     (case obj of
        PDict d \<Rightarrow> Inr (case dict_lookup d k of None \<Rightarrow> dflt | Some v \<Rightarrow> v)
      | _ \<Rightarrow> Inl AttributeError)"

text \<open>
  \<^verbatim>\<open>d.update(other)\<close>. A dictionary operand is merged item by item. Any other operand
  is iterated as a sequence of key/value pairs: each element is itself turned into a
  sequence (a string into its characters, a list into its elements, a dictionary into
  its keys), which must have length 2 and a hashable first component.
\<close>

fun seq_of :: "pyval \<Rightarrow> pyval list option" where
  "seq_of (PStr s) = Some (map (\<lambda>c. PStr [c]) s)"
| "seq_of (PList xs) = Some xs"
| "seq_of (PDict kvs) = Some (map fst kvs)"
| "seq_of _ = None"

fun merge_items :: "pydict \<Rightarrow> (pyval \<times> pyval) list \<Rightarrow> pydict" where
  "merge_items d [] = d"
| "merge_items d ((k, v) # kvs) = merge_items (dict_setitem d k v) kvs"

fun merge_from_seq2 :: "pydict \<Rightarrow> pyval list \<Rightarrow> error + pydict" where
  "merge_from_seq2 d [] = Inr d"
| "merge_from_seq2 d (item # rest) =
     (case seq_of item of
        None \<Rightarrow> Inl TypeError
      | Some fast \<Rightarrow>
          (case fast of
             [k, v] \<Rightarrow>
               if hashable k then merge_from_seq2 (dict_setitem d k v) rest
               else Inl TypeError
           | _ \<Rightarrow> Inl ValueError))"

definition dict_update :: "pydict \<Rightarrow> pyval \<Rightarrow> error + pydict" where
  "dict_update d other =
     (case other of
        PDict kvs \<Rightarrow> Inr (merge_items d kvs)
      | _ \<Rightarrow>
          (case seq_of other of
             None \<Rightarrow> Inl TypeError
           | Some items \<Rightarrow> merge_from_seq2 d items))"

subsection \<open>String operations\<close>

text \<open>
  \<^verbatim>\<open>str.lower()\<close> on code points below 256: the ASCII capitals and the capitals of the
  Latin-1 block (\<open>0xC0\<close> to \<open>0xDE\<close> without the multiplication sign \<open>0xD7\<close>) move up by 32.
\<close>

definition lower_char :: "char \<Rightarrow> char" where
  "lower_char c =
     (let n = (of_char c :: nat) in
      if (65 \<le> n \<and> n \<le> 90) \<or> (192 \<le> n \<and> n \<le> 222 \<and> n \<noteq> 215)
      then char_of (n + 32) else c)"

definition lower :: "string \<Rightarrow> string" where
  "lower s = map lower_char s"

text \<open>The character class \<^verbatim>\<open>[a-z0-9]\<close> and the class \<^verbatim>\<open>[a-z0-9\-]\<close>.\<close>

definition lower_alnum :: "char \<Rightarrow> bool" where
  "lower_alnum c =
     (let n = (of_char c :: nat) in (97 \<le> n \<and> n \<le> 122) \<or> (48 \<le> n \<and> n \<le> 57))"

definition lower_alnum_dash :: "char \<Rightarrow> bool" where
  "lower_alnum_dash c = (lower_alnum c \<or> c = CHR ''-'')"

text \<open>\<^verbatim>\<open>s.replace(' ', '')\<close> and \<^verbatim>\<open>s.strip('"')\<close>.\<close>

definition remove_spaces :: "string \<Rightarrow> string" where
  "remove_spaces s = filter (\<lambda>c. c \<noteq> CHR '' '') s"

definition strip_quotes :: "string \<Rightarrow> string" where
  "strip_quotes s =
     rev (dropWhile (\<lambda>c. c = CHR 0x22) (rev (dropWhile (\<lambda>c. c = CHR 0x22) s)))"

subsection \<open>The site name (\<^verbatim>\<open>create_app\<close>, lines 84 to 89)\<close>

text \<open>
  \<^verbatim>\<open>while site_name[-1] == '-': site_name = site_name[:-1]\<close>. Indexing the empty
  string raises \<^verbatim>\<open>IndexError\<close>.
\<close>

function strip_trailing_dashes :: "string \<Rightarrow> error + string" where
  "strip_trailing_dashes site_name =
     (if site_name = [] then Inl IndexError
      else if last site_name = CHR ''-'' then strip_trailing_dashes (butlast site_name)
      else Inr site_name)"
  by pat_completeness auto
termination
  by (relation "measure length") auto

text \<open>
  \<^verbatim>\<open>site_name = re.sub(r'[^a-z0-9\-]', '', resource_name[:40].lower())\<close>, followed by
  the loop.
\<close>

definition derive_site_name :: "string \<Rightarrow> error + string" where
  "derive_site_name resource_name =
     strip_trailing_dashes (filter lower_alnum_dash (lower (take 40 resource_name)))"

subsection \<open>The template resolver (\<^verbatim>\<open>__retrieve_bot_template_link\<close>)\<close>

text \<open>
  The answer of \<^verbatim>\<open>requests.get('https://dev.botframework.com/api/misc/bottemplateroot')\<close>
  is an input of the model: its status code and its body.
\<close>

record http_response =
  status_code :: int
  response_text :: string

definition function_template_name :: string where
  "function_template_name = ''functionapp.template.json''"

definition v3_webapp_template_name :: string where
  "v3_webapp_template_name = ''webapp.template.json''"

definition v4_webapp_template_name :: string where
  "v4_webapp_template_name = ''webappv4.template.json''"

definition retrieve_bot_template_link ::
  "http_response \<Rightarrow> string \<Rightarrow> string \<Rightarrow> string \<Rightarrow> error + (string \<times> string)" where
  "retrieve_bot_template_link response version language kind =
     (if status_code response \<noteq> 200 then
        Inl (CLIError (''Unable to get bot code template from CDN. Please file an issue on '' @
                       ''https://github.com/Microsoft/botbuilder-tools/issues''))
      else
        let cdn_link = strip_quotes (response_text response) in
        if version = ''v3'' then
          if kind = ''function'' then
            Inr (if language = ''Csharp'' then
                   cdn_link @ ''csharp-abs-functions_emptybot.zip''
                 else if language = ''Javascript'' then
                   cdn_link @ ''node.js-abs-functions_emptybot_funcpack.zip''
                 else cdn_link,
                 function_template_name)
          else
            Inr (if language = ''Csharp'' then
                   cdn_link @ ''csharp-abs-webapp_simpleechobot_precompiled.zip''
                 else if language = ''Javascript'' then
                   cdn_link @ ''node.js-abs-webapp_hello-chatconnector.zip''
                 else cdn_link,
                 v3_webapp_template_name)
        else
          if kind = ''function'' then
            Inl (CLIError ''Function bot creation is not supported for v4 bot sdk.'')
          else
            Inr (if language = ''Csharp'' then
                   cdn_link @ ''csharp-abs-webapp-v4_echobot_precompiled.zip''
                 else if language = ''Javascript'' then
                   cdn_link @ ''node.js-abs-webapp-v4_echobot.zip''
                 else cdn_link,
                 v4_webapp_template_name))"

subsection \<open>The parameter builder (\<^verbatim>\<open>create_app\<close>)\<close>

text \<open>
  \<^verbatim>\<open>create_app\<close> is modelled up to its call of \<^verbatim>\<open>deploy_arm_template\<close>: the result
  \<open>Inr d\<close> says that the deployment is requested with the arguments \<open>d\<close>, the result
  \<open>Inl e\<close> that \<open>e\<close> is raised before any deployment is requested. The field
  \<open>arm_parameters\<close> is the dictionary \<^verbatim>\<open>params\<close> of line 130, which the source passes on
  as \<^verbatim>\<open>[[json.dumps(params)]]\<close>; \<open>arm_template_name\<close> is the file name joined to the
  module's directory. The arguments \<^verbatim>\<open>description\<close>, \<^verbatim>\<open>password\<close> and
  \<^verbatim>\<open>storageAccountName\<close> may be \<^verbatim>\<open>None\<close>; \<open>subscription_id\<close> stands for
  \<^verbatim>\<open>client.config.subscription_id\<close>. The dictionary literal and the body of the
  \<^verbatim>\<open>v3\<close> branch are definitions of their own.
\<close>

record arm_deployment =
  arm_resource_group_name :: string
  arm_template_name :: string
  arm_parameters :: pydict
  arm_deployment_name :: string
  arm_mode :: string

fun of_optional :: "string option \<Rightarrow> pyval" where
  "of_optional None = PNone"
| "of_optional (Some s) = PStr s"

text \<open>
  The dictionary literal of lines 93 to 108 (\<^verbatim>\<open># ARM Template parameters\<close>).
\<close>

definition arm_template_parameters ::
  "string \<Rightarrow> string \<Rightarrow> string \<Rightarrow> string \<Rightarrow> string \<Rightarrow> string option \<Rightarrow> string \<Rightarrow> string \<Rightarrow>
   string \<Rightarrow> string \<Rightarrow> pydict" where
  "arm_template_parameters subscription_id resource_group_name resource_name kind appid
     password location sku_name site_name zip_url =
     [(PStr ''location'', PStr location),
      (PStr ''kind'', PStr kind),
      (PStr ''sku'', PStr sku_name),
      (PStr ''siteName'', PStr site_name),
      (PStr ''appId'', PStr appid),
      (PStr ''appSecret'', of_optional password),
      (PStr ''serverFarmId'',
         PStr (''/subscriptions/'' @ subscription_id @ ''/resourceGroups/'' @
               resource_group_name @
               ''/providers/Microsoft.Web/serverfarms/'' @ resource_name)),
      (PStr ''zipUrl'', PStr zip_url),
      (PStr ''botEnv'', PStr ''prod''),
      (PStr ''createServerFarm'', PBool True),
      (PStr ''serverFarmLocation'', PStr (remove_spaces (lower location))),
      (PStr ''azureWebJobsBotFrameworkDirectLineSecret'', PStr []),
      (PStr ''botId'', PStr resource_name)]"

text \<open>
  The body of \<^verbatim>\<open>if version == 'v3':\<close>, lines 113 to 127: storage and application
  insights.
\<close>

definition v3_parameters :: "pydict \<Rightarrow> string \<Rightarrow> string option \<Rightarrow> string \<Rightarrow> pydict" where
  "v3_parameters paramsdict resource_name storageAccountName appInsightsLocation =
     (let paramsdict = dict_setitem paramsdict (PStr ''createNewStorage'') (PBool False);
          paramsdict = dict_setitem paramsdict (PStr ''storageAccountResourceId'') (PStr []);
          (storageAccountName, paramsdict) =
            (if \<not> truthy (of_optional storageAccountName) then
               (PStr (filter lower_alnum (lower (take 24 resource_name))),
                dict_setitem paramsdict (PStr ''createNewStorage'') (PBool True))
             else (of_optional storageAccountName, paramsdict));
          paramsdict = dict_setitem paramsdict (PStr ''storageAccountName'') storageAccountName;
          appInsightsLocation = remove_spaces (lower appInsightsLocation);
          paramsdict = dict_setitem paramsdict (PStr ''useAppInsights'') (PBool True);
          paramsdict =
            dict_setitem paramsdict (PStr ''appInsightsLocation'') (PStr appInsightsLocation)
      in paramsdict)"

definition create_app ::
  "http_response \<Rightarrow> string \<Rightarrow> string \<Rightarrow> string \<Rightarrow> string option \<Rightarrow> string \<Rightarrow> string \<Rightarrow>
   string option \<Rightarrow> string option \<Rightarrow> string \<Rightarrow> string \<Rightarrow> string \<Rightarrow> string \<Rightarrow> string \<Rightarrow>
   error + arm_deployment" where
  "create_app response subscription_id resource_group_name resource_name description kind
     appid password storageAccountName location sku_name appInsightsLocation language version =
     (let kind = (if kind = ''webapp'' then ''sdk'' else kind) in
      case retrieve_bot_template_link response version language kind of
        Inl e \<Rightarrow> Inl e
      | Inr (zip_url, template_name) \<Rightarrow>
          (case derive_site_name resource_name of
             Inl e \<Rightarrow> Inl e
           | Inr site_name \<Rightarrow>
               let paramsdict =
                     arm_template_parameters subscription_id resource_group_name resource_name
                       kind appid password location sku_name site_name zip_url;
                   paramsdict =
                     (if truthy (of_optional description)
                      then dict_setitem paramsdict (PStr ''description'') (of_optional description)
                      else paramsdict);
                   paramsdict =
                     (if version = ''v3''
                      then v3_parameters paramsdict resource_name storageAccountName
                             appInsightsLocation
                      else paramsdict);
                   params = map (\<lambda>(k, v). (k, PDict [(PStr ''value'', v)])) paramsdict
               in Inr \<lparr>arm_resource_group_name = resource_group_name,
                        arm_template_name = template_name,
                        arm_parameters = params,
                        arm_deployment_name = resource_name,
                        arm_mode = ''Incremental''\<rparr>))"

subsection \<open>The parameter merge (\<^verbatim>\<open>__process_parameters\<close>)\<close>

text \<open>
  \<^verbatim>\<open>shell_safe_json_parse\<close> belongs to \<^verbatim>\<open>azure.cli.core.util\<close>; it is a parameter of the
  model, a function from the raw string to the parsed value or to the exception it raises.
  \<^verbatim>\<open>_try_parse_json_object\<close> catches \<^verbatim>\<open>CLIError\<close> only.
\<close>

type_synonym json_parser = "string \<Rightarrow> error + pyval"

definition try_parse_json_object :: "json_parser \<Rightarrow> string \<Rightarrow> error + pyval" where
  "try_parse_json_object shell_safe_json_parse v =
     (case shell_safe_json_parse v of
        Inl (CLIError msg) \<Rightarrow> Inr PNone
      | Inl e \<Rightarrow> Inl e
      | Inr parsed \<Rightarrow> py_get parsed (PStr ''parameters'') parsed)"

text \<open>The inner loop \<^verbatim>\<open>for item in params\<close> and the outer loop over the lists.\<close>

fun process_items :: "json_parser \<Rightarrow> pydict \<Rightarrow> string list \<Rightarrow> error + pydict" where
  "process_items parse parameters [] = Inr parameters"
| "process_items parse parameters (item # params) =
     (case try_parse_json_object parse item of
        Inl e \<Rightarrow> Inl e
      | Inr param_obj \<Rightarrow>
          if truthy param_obj then
            (case dict_update parameters param_obj of
               Inl e \<Rightarrow> Inl e
             | Inr parameters' \<Rightarrow> process_items parse parameters' params)
          else process_items parse parameters params)"

fun process_lists :: "json_parser \<Rightarrow> pydict \<Rightarrow> string list list \<Rightarrow> error + pydict" where
  "process_lists parse parameters [] = Inr parameters"
| "process_lists parse parameters (params # parameter_lists) =
     (case process_items parse parameters params of
        Inl e \<Rightarrow> Inl e
      | Inr parameters' \<Rightarrow> process_lists parse parameters' parameter_lists)"

text \<open>\<^verbatim>\<open>parameter_lists or []\<close>: \<^verbatim>\<open>None\<close> counts as the empty list.\<close>

definition process_parameters :: "json_parser \<Rightarrow> string list list option \<Rightarrow> error + pydict" where
  "process_parameters parse parameter_lists =
     process_lists parse [] (case parameter_lists of None \<Rightarrow> [] | Some ls \<Rightarrow> ls)"

subsection \<open>The rules of the specification\<close>

text \<open>
  The site name as the specification words it: the resource name truncated to 40
  characters, lowercased, the characters outside \<^verbatim>\<open>[a-z0-9-]\<close> removed, and every
  trailing \<^verbatim>\<open>-\<close> stripped.
\<close>

definition strip_dashes_rule :: "string \<Rightarrow> string" where
  "strip_dashes_rule s = rev (dropWhile (\<lambda>c. c = CHR ''-'') (rev s))"

definition site_name_rule :: "string \<Rightarrow> string" where
  "site_name_rule resource_name =
     strip_dashes_rule (filter lower_alnum_dash (lower (take 40 resource_name)))"

text \<open>The keys of a dictionary, \<^verbatim>\<open>d.keys()\<close>.\<close>

definition dict_keys :: "pydict \<Rightarrow> pyval list" where
  "dict_keys d = map fst d"

text \<open>\<^verbatim>\<open>isinstance(v, dict)\<close>.\<close>

fun is_dict :: "pyval \<Rightarrow> bool" where
  "is_dict (PDict d) = True"
| "is_dict _ = False"

text \<open>
  The merge as the specification words it. An entry that parses to an object contributes
  the contents of the object under its \<^verbatim>\<open>parameters\<close> key when it has that key, and the
  parsed object itself otherwise; an entry that does not parse contributes nothing.
\<close>

fun contents :: "pyval \<Rightarrow> pydict" where
  "contents (PDict d) = d"
| "contents _ = []"

definition entry_object :: "json_parser \<Rightarrow> string \<Rightarrow> pydict" where
  "entry_object parse raw =
     (case parse raw of
        Inr (PDict d) \<Rightarrow>
          (case dict_lookup d (PStr ''parameters'') of
             Some nested \<Rightarrow> contents nested
           | None \<Rightarrow> d)
      | _ \<Rightarrow> [])"

text \<open>
  Later sources override earlier ones: a key has the value of the last entry that binds
  it. (An object lists each key once; were a key listed twice, its last item would count.)
\<close>

fun merged_lookup :: "json_parser \<Rightarrow> string list \<Rightarrow> pyval \<Rightarrow> pyval option" where
  "merged_lookup parse [] k = None"
| "merged_lookup parse (raw # rest) k =
     (case merged_lookup parse rest k of
        Some v \<Rightarrow> Some v
      | None \<Rightarrow> dict_lookup (rev (entry_object parse raw)) k)"

text \<open>
  The entries the specification speaks of: the parser raises \<^verbatim>\<open>CLIError\<close>, or it returns
  an object whose \<^verbatim>\<open>parameters\<close> member, when present, is an object.
\<close>

definition object_or_unparsable :: "json_parser \<Rightarrow> string \<Rightarrow> bool" where
  "object_or_unparsable parse raw =
     (case parse raw of
        Inl (CLIError msg) \<Rightarrow> True
      | Inl _ \<Rightarrow> False
      | Inr (PDict d) \<Rightarrow>
          (case dict_lookup d (PStr ''parameters'') of
             Some nested \<Rightarrow> is_dict nested
           | None \<Rightarrow> True)
      | Inr _ \<Rightarrow> False)"

text \<open>
  Modelled from the spec: \<^verbatim>\<open>shell_safe_json_parse\<close>, which is not among the sources, on
  the raw strings of the examples below, each read as JSON; on every other string it
  raises \<^verbatim>\<open>CLIError\<close>.
\<close>

definition example_parser :: json_parser where
  "example_parser raw =
     (if raw = ''{\"parameters\":{\"a\":1}}'' then
        Inr (PDict [(PStr ''parameters'', PDict [(PStr ''a'', PInt 1)])])
      else if raw = ''{\"a\":2,\"b\":3}'' then
        Inr (PDict [(PStr ''a'', PInt 2), (PStr ''b'', PInt 3)])
      else if raw = ''{}'' then Inr (PDict [])
      else if raw = ''0'' then Inr (PInt 0)
      else if raw = ''false'' then Inr (PBool False)
      else if raw = ''null'' then Inr PNone
      else if raw = ''5'' then Inr (PInt 5)
      else if raw = ''{\"parameters\":5}'' then Inr (PDict [(PStr ''parameters'', PInt 5)])
      else Inl (CLIError ''Expecting value: line 1 column 1 (char 0)''))"

section \<open>Properties\<close>

subsection \<open>The site name\<close>

declare strip_trailing_dashes.simps [simp del]

lemma strip_dashes_rule_snoc:
  "strip_dashes_rule (s @ [c]) = (if c = CHR ''-'' then strip_dashes_rule s else s @ [c])"
  by (simp add: strip_dashes_rule_def)

text \<open>The loop computes the rule, and raises exactly when the rule leaves nothing.\<close>

lemma strip_trailing_dashes_rule:
  "strip_trailing_dashes s =
     (if strip_dashes_rule s = [] then Inl IndexError else Inr (strip_dashes_rule s))"
proof (induction s rule: strip_trailing_dashes.induct)
  case (1 s)
  show ?case
  proof (cases "s = []")
    case True
    then show ?thesis
      by (simp add: strip_trailing_dashes.simps [of "[]"] strip_dashes_rule_def)
  next
    case False
    then have s: "s = butlast s @ [last s]" by simp
    show ?thesis
    proof (cases "last s = CHR ''-''")
      case True
      have "strip_dashes_rule s = strip_dashes_rule (butlast s)"
        using strip_dashes_rule_snoc [of "butlast s" "last s"] s True by simp
      moreover have "strip_trailing_dashes s = strip_trailing_dashes (butlast s)"
        using False True by (simp add: strip_trailing_dashes.simps [of s])
      ultimately show ?thesis using "1.IH" [OF False True] by simp
    next
      case no_dash: False
      have "strip_dashes_rule s = s"
        using strip_dashes_rule_snoc [of "butlast s" "last s"] s no_dash by simp
      moreover have "strip_trailing_dashes s = Inr s"
        using False no_dash by (simp add: strip_trailing_dashes.simps [of s])
      ultimately show ?thesis using False by simp
    qed
  qed
qed

lemma derive_site_name_rule:
  "derive_site_name resource_name =
     (if site_name_rule resource_name = [] then Inl IndexError
      else Inr (site_name_rule resource_name))"
  by (simp add: derive_site_name_def site_name_rule_def strip_trailing_dashes_rule)

lemma lower_char_fixed: "lower_alnum_dash c \<Longrightarrow> lower_char c = c"
  by (auto simp: lower_alnum_dash_def lower_alnum_def lower_char_def Let_def)

lemma set_strip_dashes_rule: "set (strip_dashes_rule s) \<subseteq> set s"
  using set_dropWhileD [of _ "\<lambda>c. c = CHR ''-''" "rev s"] by (auto simp: strip_dashes_rule_def)

lemma length_strip_dashes_rule: "length (strip_dashes_rule s) \<le> length s"
  using length_dropWhile_le [of "\<lambda>c. c = CHR ''-''" "rev s"] by (simp add: strip_dashes_rule_def)

lemma strip_dashes_rule_idem: "strip_dashes_rule (strip_dashes_rule s) = strip_dashes_rule s"
  by (simp add: strip_dashes_rule_def)

lemma site_name_rule_chars: "c \<in> set (site_name_rule r) \<Longrightarrow> lower_alnum_dash c"
  using set_strip_dashes_rule [of "filter lower_alnum_dash (lower (take 40 r))"]
  by (auto simp: site_name_rule_def)

lemma site_name_rule_length: "length (site_name_rule r) \<le> 40"
proof -
  have "length (site_name_rule r) \<le> length (filter lower_alnum_dash (lower (take 40 r)))"
    unfolding site_name_rule_def by (rule length_strip_dashes_rule)
  also have "\<dots> \<le> length (lower (take 40 r))" by (rule length_filter_le)
  also have "\<dots> \<le> 40" by (simp add: lower_def)
  finally show ?thesis .
qed

lemma site_name_rule_idem: "site_name_rule (site_name_rule r) = site_name_rule r"
proof -
  let ?s = "site_name_rule r"
  have "take 40 ?s = ?s" using site_name_rule_length [of r] by simp
  moreover have "lower ?s = ?s"
    unfolding lower_def using site_name_rule_chars [of _ r] lower_char_fixed
    by (simp add: map_idI)
  moreover have "filter lower_alnum_dash ?s = ?s"
    using site_name_rule_chars [of _ r] by (simp add: filter_id_conv)
  moreover have "strip_dashes_rule ?s = ?s"
    by (simp add: site_name_rule_def strip_dashes_rule_idem)
  ultimately show ?thesis
    by (simp add: site_name_rule_def [of "site_name_rule r"])
qed

text \<open>
  When the rule leaves the empty string and the template is resolved, \<^verbatim>\<open>create_app\<close>
  raises \<^verbatim>\<open>IndexError\<close>.
\<close>

lemma create_app_empty_site_name:
  assumes "site_name_rule resource_name = []"
    and "retrieve_bot_template_link response version language
           (if kind = ''webapp'' then ''sdk'' else kind) = Inr link"
  shows "create_app response subscription_id resource_group_name resource_name description
           kind appid password storageAccountName location sku_name appInsightsLocation
           language version = Inl IndexError"
  using assms by (simp add: create_app_def derive_site_name_rule split: prod.splits)

text \<open>
  Claim C1. A resource name whose site name derivation leaves the empty string, such as
  \<^verbatim>\<open>"----"\<close>, should make \<^verbatim>\<open>create_app\<close> raise a validation error. With a successful
  template lookup the code raises \<^verbatim>\<open>IndexError\<close> instead: the loop of line 88 reads
  \<^verbatim>\<open>site_name[-1]\<close> of the empty string. No deployment is requested.
\<close>

theorem create_app_all_dashes_index_error:
  "create_app \<lparr>status_code = 200, response_text = ''https://cdn/''\<rparr> ''sub'' ''rg'' ''----''
     None ''webapp'' ''id'' (Some ''pw'') None ''Central US'' ''F0'' ''South Central US''
     ''Csharp'' ''v3'' = Inl IndexError"
  by code_simp


text \<open>
  Claim C7. The site name derivation is idempotent: wherever it yields a site name,
  deriving the site name of that result yields the same result again.
\<close>

theorem site_name_idempotent:
  "derive_site_name resource_name = Inr site_name \<Longrightarrow>
   derive_site_name site_name = Inr site_name"
proof -
  assume a: "derive_site_name resource_name = Inr site_name"
  then have ne: "site_name_rule resource_name \<noteq> []"
    and eq: "site_name = site_name_rule resource_name"
    by (auto simp: derive_site_name_rule split: if_splits)
  show ?thesis
    unfolding eq using ne by (simp add: derive_site_name_rule site_name_rule_idem)
qed

theorem site_name_idempotent_witness:
  "derive_site_name ''My--Bot---'' = Inr ''my--bot'' \<and>
   derive_site_name ''my--bot'' = Inr ''my--bot''"
proof -
  have h: "derive_site_name ''My--Bot---'' = Inr ''my--bot''" by code_simp
  show ?thesis using h site_name_idempotent [OF h] by simp
qed

subsection \<open>The template resolver\<close>

text \<open>
  Claim C2, as amended. For every language, resolving a template with a version other
  than \<^verbatim>\<open>v3\<close> and the kind \<^verbatim>\<open>function\<close> fails with a \<^verbatim>\<open>CLIError\<close>, and \<^verbatim>\<open>create_app\<close>
  fails with the same error before any deployment is requested. The error says that
  function bots are unsupported for v4 when the template root lookup answered with status
  200; after any other status it is the error of the failed lookup.
\<close>

theorem v4_function_fails:
  assumes "version \<noteq> ''v3''" and "kind = ''function''"
  shows "retrieve_bot_template_link response version language kind =
           Inl (CLIError
             (if status_code response = 200
              then ''Function bot creation is not supported for v4 bot sdk.''
              else ''Unable to get bot code template from CDN. Please file an issue on https://github.com/Microsoft/botbuilder-tools/issues''))
         \<and> create_app response subscription_id resource_group_name resource_name description
               kind appid password storageAccountName location sku_name appInsightsLocation
               language version =
           Inl (CLIError
             (if status_code response = 200
              then ''Function bot creation is not supported for v4 bot sdk.''
              else ''Unable to get bot code template from CDN. Please file an issue on https://github.com/Microsoft/botbuilder-tools/issues''))"
proof -
  have r: "retrieve_bot_template_link response version language ''function'' =
           Inl (CLIError
             (if status_code response = 200
              then ''Function bot creation is not supported for v4 bot sdk.''
              else ''Unable to get bot code template from CDN. Please file an issue on https://github.com/Microsoft/botbuilder-tools/issues''))"
    using assms(1) by (simp add: retrieve_bot_template_link_def)
  have "create_app response subscription_id resource_group_name resource_name description
               ''function'' appid password storageAccountName location sku_name appInsightsLocation
               language version =
           Inl (CLIError
             (if status_code response = 200
              then ''Function bot creation is not supported for v4 bot sdk.''
              else ''Unable to get bot code template from CDN. Please file an issue on https://github.com/Microsoft/botbuilder-tools/issues''))"
    unfolding create_app_def by (simp add: r)
  with r show ?thesis by (simp add: assms(2))
qed

theorem v4_function_fails_witness:
  "''v4'' \<noteq> ''v3'' \<and>
   retrieve_bot_template_link \<lparr>status_code = 200, response_text = ''https://cdn/''\<rparr>
     ''v4'' ''Csharp'' ''function'' =
   Inl (CLIError ''Function bot creation is not supported for v4 bot sdk.'') \<and>
   create_app \<lparr>status_code = 200, response_text = ''https://cdn/''\<rparr> ''sub'' ''rg'' ''bot'' None
     ''function'' ''id'' None None ''Central US'' ''F0'' ''South Central US'' ''Csharp'' ''v4'' =
   Inl (CLIError ''Function bot creation is not supported for v4 bot sdk.'')"
  using v4_function_fails
    [of "''v4''" "''function''" "\<lparr>status_code = 200, response_text = ''https://cdn/''\<rparr>"
        "''Csharp''" "''sub''" "''rg''" "''bot''" None "''id''" None None "''Central US''"
        "''F0''" "''South Central US''"]
  by simp

text \<open>
  Claim C2 as stated does not hold: when the template root lookup answers with status
  500, the resolver raises the error of the failed lookup, not the one about function
  bots.
\<close>

theorem v4_function_counterexample:
  "retrieve_bot_template_link \<lparr>status_code = 500, response_text = []\<rparr>
     ''v4'' ''Csharp'' ''function'' =
   Inl (CLIError ''Unable to get bot code template from CDN. Please file an issue on https://github.com/Microsoft/botbuilder-tools/issues'') \<and>
   retrieve_bot_template_link \<lparr>status_code = 500, response_text = []\<rparr>
     ''v4'' ''Csharp'' ''function'' \<noteq>
   Inl (CLIError ''Function bot creation is not supported for v4 bot sdk.'')"
  by (simp add: retrieve_bot_template_link_def)

text \<open>
  Claim C3. When the template root lookup succeeds and the combination is not a version
  other than \<^verbatim>\<open>v3\<close> with the kind \<^verbatim>\<open>function\<close>, the resolver returns a pair: the template
  name is the function template for (v3, function), the v3 web app template for v3 with
  any other kind, and the v4 web app template for any other version; for the languages
  \<^verbatim>\<open>Csharp\<close> and \<^verbatim>\<open>Javascript\<close> the artifact URL is the root followed by the archive name
  of that version, kind and language.
\<close>

theorem resolve_matches_table:
  assumes "status_code response = 200"
    and "version = ''v3'' \<or> kind \<noteq> ''function''"
  shows "\<exists>artifact_url.
           retrieve_bot_template_link response version language kind =
             Inr (artifact_url,
                  if version = ''v3'' then
                    (if kind = ''function'' then function_template_name
                     else v3_webapp_template_name)
                  else v4_webapp_template_name) \<and>
           (language = ''Csharp'' \<longrightarrow>
              artifact_url = strip_quotes (response_text response) @
                (if version = ''v3'' then
                   (if kind = ''function'' then ''csharp-abs-functions_emptybot.zip''
                    else ''csharp-abs-webapp_simpleechobot_precompiled.zip'')
                 else ''csharp-abs-webapp-v4_echobot_precompiled.zip'')) \<and>
           (language = ''Javascript'' \<longrightarrow>
              artifact_url = strip_quotes (response_text response) @
                (if version = ''v3'' then
                   (if kind = ''function'' then ''node.js-abs-functions_emptybot_funcpack.zip''
                    else ''node.js-abs-webapp_hello-chatconnector.zip'')
                 else ''node.js-abs-webapp-v4_echobot.zip''))"
  using assms by (auto simp: retrieve_bot_template_link_def Let_def)

theorem resolve_matches_table_witness:
  "status_code \<lparr>status_code = 200, response_text = CHR 0x22 # ''https://cdn/'' @ [CHR 0x22]\<rparr> = 200 \<and>
   retrieve_bot_template_link
     \<lparr>status_code = 200, response_text = CHR 0x22 # ''https://cdn/'' @ [CHR 0x22]\<rparr>
     ''v3'' ''Javascript'' ''function'' =
   Inr (''https://cdn/node.js-abs-functions_emptybot_funcpack.zip'', ''functionapp.template.json'')"
  using resolve_matches_table
    [of "\<lparr>status_code = 200, response_text = CHR 0x22 # ''https://cdn/'' @ [CHR 0x22]\<rparr>"
        "''v3''" "''function''" "''Javascript''"]
  by (simp add: strip_quotes_def function_template_name_def)

text \<open>
  Claim C9. For a language other than \<^verbatim>\<open>Csharp\<close> and \<^verbatim>\<open>Javascript\<close>, outside the
  combination of a version other than \<^verbatim>\<open>v3\<close> with the kind \<^verbatim>\<open>function\<close>, and after a
  successful lookup, the returned artifact URL is the root with its quotes stripped and
  nothing appended.
\<close>

theorem other_language_bare_root:
  assumes "status_code response = 200"
    and "language \<noteq> ''Csharp''" and "language \<noteq> ''Javascript''"
    and "version = ''v3'' \<or> kind \<noteq> ''function''"
  shows "\<exists>template_name.
           retrieve_bot_template_link response version language kind =
             Inr (strip_quotes (response_text response), template_name)"
  using assms by (auto simp: retrieve_bot_template_link_def Let_def)

theorem other_language_bare_root_witness:
  "''Python'' \<noteq> ''Csharp'' \<and> ''Python'' \<noteq> ''Javascript'' \<and>
   (\<exists>template_name.
      retrieve_bot_template_link
        \<lparr>status_code = 200, response_text = CHR 0x22 # ''https://cdn/'' @ [CHR 0x22]\<rparr>
        ''v4'' ''Python'' ''sdk'' = Inr (''https://cdn/'', template_name))"
  using other_language_bare_root
    [of "\<lparr>status_code = 200, response_text = CHR 0x22 # ''https://cdn/'' @ [CHR 0x22]\<rparr>"
        "''Python''" "''v4''" "''sdk''"]
  by (simp add: strip_quotes_def)

subsection \<open>The parameter builder\<close>

lemma key_eq_PStr [simp]: "key_eq k' (PStr k) = (k' = PStr k)"
  by (cases k') (auto simp: key_eq_def)

lemma dict_keys_Nil [simp]: "dict_keys [] = []"
  by (simp add: dict_keys_def)

lemma dict_keys_Cons [simp]: "dict_keys ((k, v) # d) = k # dict_keys d"
  by (simp add: dict_keys_def)

lemma dict_keys_setitem_PStr [simp]:
  "set (dict_keys (dict_setitem d (PStr k) v)) = insert (PStr k) (set (dict_keys d))"
proof (induction d)
  case Nil
  show ?case by simp
next
  case (Cons a d)
  obtain k' v' where a: "a = (k', v')" by (cases a)
  show ?case using Cons by (cases "k' = PStr k") (auto simp: a)
qed

lemma dict_keys_wrap [simp]:
  "dict_keys (map (\<lambda>(k, v). (k, f v)) d) = dict_keys d"
  by (induction d) (auto simp: dict_keys_def)

lemma arm_template_parameters_keys:
  "set (dict_keys (arm_template_parameters subscription_id resource_group_name resource_name
          kind appid password location sku_name site_name zip_url)) =
     {PStr ''location'', PStr ''kind'', PStr ''sku'', PStr ''siteName'', PStr ''appId'',
      PStr ''appSecret'', PStr ''serverFarmId'', PStr ''zipUrl'', PStr ''botEnv'',
      PStr ''createServerFarm'', PStr ''serverFarmLocation'',
      PStr ''azureWebJobsBotFrameworkDirectLineSecret'', PStr ''botId''}"
  by (simp add: arm_template_parameters_def)

lemma v3_parameters_keys:
  "set (dict_keys (v3_parameters paramsdict resource_name storageAccountName appInsightsLocation)) =
     {PStr ''createNewStorage'', PStr ''storageAccountResourceId'', PStr ''storageAccountName'',
      PStr ''useAppInsights'', PStr ''appInsightsLocation''} \<union> set (dict_keys paramsdict)"
  by (auto simp: v3_parameters_def Let_def simp del: dict_setitem.simps)

lemma create_app_keys:
  assumes "create_app response subscription_id resource_group_name resource_name description kind
      appid password storageAccountName location sku_name appInsightsLocation language version
      = Inr deployment"
  shows "set (dict_keys (arm_parameters deployment)) =
     {PStr ''location'', PStr ''kind'', PStr ''sku'', PStr ''siteName'', PStr ''appId'',
      PStr ''appSecret'', PStr ''serverFarmId'', PStr ''zipUrl'', PStr ''botEnv'',
      PStr ''createServerFarm'', PStr ''serverFarmLocation'',
      PStr ''azureWebJobsBotFrameworkDirectLineSecret'', PStr ''botId''} \<union>
     (if truthy (of_optional description) then {PStr ''description''} else {}) \<union>
     (if version = ''v3'' then
        {PStr ''createNewStorage'', PStr ''storageAccountResourceId'', PStr ''storageAccountName'',
         PStr ''useAppInsights'', PStr ''appInsightsLocation''}
      else {})"
  using assms unfolding create_app_def Let_def
  by (auto simp: arm_template_parameters_keys v3_parameters_keys simp del: dict_setitem.simps
        split: sum.splits prod.splits if_splits)


text \<open>
  Claim C4. Whenever \<^verbatim>\<open>create_app\<close> builds the parameter map, the map built with
  version \<^verbatim>\<open>v3\<close> contains the keys \<^verbatim>\<open>createNewStorage\<close>, \<^verbatim>\<open>storageAccountResourceId\<close>,
  \<^verbatim>\<open>storageAccountName\<close>, \<^verbatim>\<open>useAppInsights\<close> and \<^verbatim>\<open>appInsightsLocation\<close>, and the map
  built with version \<^verbatim>\<open>v4\<close> contains none of them.
\<close>

theorem v3_keys_present_v4_absent:
  "(create_app response subscription_id resource_group_name resource_name description kind
      appid password storageAccountName location sku_name appInsightsLocation language ''v3''
      = Inr deployment \<longrightarrow>
    {PStr ''createNewStorage'', PStr ''storageAccountResourceId'', PStr ''storageAccountName'',
     PStr ''useAppInsights'', PStr ''appInsightsLocation''}
      \<subseteq> set (dict_keys (arm_parameters deployment))) \<and>
   (create_app response subscription_id resource_group_name resource_name description kind
      appid password storageAccountName location sku_name appInsightsLocation language ''v4''
      = Inr deployment \<longrightarrow>
    {PStr ''createNewStorage'', PStr ''storageAccountResourceId'', PStr ''storageAccountName'',
     PStr ''useAppInsights'', PStr ''appInsightsLocation''}
      \<inter> set (dict_keys (arm_parameters deployment)) = {})"
proof (intro conjI impI)
  assume "create_app response subscription_id resource_group_name resource_name description kind
      appid password storageAccountName location sku_name appInsightsLocation language ''v3''
      = Inr deployment"
  from create_app_keys [OF this]
  show "{PStr ''createNewStorage'', PStr ''storageAccountResourceId'', PStr ''storageAccountName'',
     PStr ''useAppInsights'', PStr ''appInsightsLocation''}
      \<subseteq> set (dict_keys (arm_parameters deployment))"
    by simp
next
  assume "create_app response subscription_id resource_group_name resource_name description kind
      appid password storageAccountName location sku_name appInsightsLocation language ''v4''
      = Inr deployment"
  from create_app_keys [OF this]
  show "{PStr ''createNewStorage'', PStr ''storageAccountResourceId'', PStr ''storageAccountName'',
     PStr ''useAppInsights'', PStr ''appInsightsLocation''}
      \<inter> set (dict_keys (arm_parameters deployment)) = {}"
    by simp
qed

theorem v3_keys_present_v4_absent_witness:
  "\<not> isl (create_app \<lparr>status_code = 200, response_text = ''https://cdn/''\<rparr> ''sub'' ''rg'' ''My--Bot---''
       None ''webapp'' ''id'' (Some ''pw'') None ''Central US'' ''F0'' ''South Central US''
       ''Csharp'' ''v3'') \<and>
   {PStr ''createNewStorage'', PStr ''storageAccountResourceId'', PStr ''storageAccountName'',
    PStr ''useAppInsights'', PStr ''appInsightsLocation''}
     \<subseteq> set (dict_keys (arm_parameters (projr
         (create_app \<lparr>status_code = 200, response_text = ''https://cdn/''\<rparr> ''sub'' ''rg'' ''My--Bot---''
            None ''webapp'' ''id'' (Some ''pw'') None ''Central US'' ''F0'' ''South Central US''
            ''Csharp'' ''v3'')))) \<and>
   \<not> isl (create_app \<lparr>status_code = 200, response_text = ''https://cdn/''\<rparr> ''sub'' ''rg'' ''My--Bot---''
       None ''webapp'' ''id'' (Some ''pw'') None ''Central US'' ''F0'' ''South Central US''
       ''Csharp'' ''v4'') \<and>
   {PStr ''createNewStorage'', PStr ''storageAccountResourceId'', PStr ''storageAccountName'',
    PStr ''useAppInsights'', PStr ''appInsightsLocation''}
     \<inter> set (dict_keys (arm_parameters (projr
         (create_app \<lparr>status_code = 200, response_text = ''https://cdn/''\<rparr> ''sub'' ''rg'' ''My--Bot---''
            None ''webapp'' ''id'' (Some ''pw'') None ''Central US'' ''F0'' ''South Central US''
            ''Csharp'' ''v4'')))) = {}"
proof -
  let ?v3 = "create_app \<lparr>status_code = 200, response_text = ''https://cdn/''\<rparr> ''sub'' ''rg'' ''My--Bot---''
       None ''webapp'' ''id'' (Some ''pw'') None ''Central US'' ''F0'' ''South Central US''
       ''Csharp'' ''v3''"
  let ?v4 = "create_app \<lparr>status_code = 200, response_text = ''https://cdn/''\<rparr> ''sub'' ''rg'' ''My--Bot---''
       None ''webapp'' ''id'' (Some ''pw'') None ''Central US'' ''F0'' ''South Central US''
       ''Csharp'' ''v4''"
  have i3: "\<not> isl ?v3" by code_simp
  have i4: "\<not> isl ?v4" by code_simp
  from i3 have e3: "?v3 = Inr (projr ?v3)" by (cases ?v3) simp_all
  from i4 have e4: "?v4 = Inr (projr ?v4)" by (cases ?v4) simp_all
  note inst3 = v3_keys_present_v4_absent
    [of "\<lparr>status_code = 200, response_text = ''https://cdn/''\<rparr>" "''sub''" "''rg''"
        "''My--Bot---''" None "''webapp''" "''id''" "Some ''pw''" None "''Central US''"
        "''F0''" "''South Central US''" "''Csharp''" "projr ?v3"]
  note inst4 = v3_keys_present_v4_absent
    [of "\<lparr>status_code = 200, response_text = ''https://cdn/''\<rparr>" "''sub''" "''rg''"
        "''My--Bot---''" None "''webapp''" "''id''" "Some ''pw''" None "''Central US''"
        "''F0''" "''South Central US''" "''Csharp''" "projr ?v4"]
  have k3: "{PStr ''createNewStorage'', PStr ''storageAccountResourceId'', PStr ''storageAccountName'',
    PStr ''useAppInsights'', PStr ''appInsightsLocation''}
     \<subseteq> set (dict_keys (arm_parameters (projr ?v3)))"
    by (rule mp [OF conjunct1 [OF inst3] e3])
  have k4: "{PStr ''createNewStorage'', PStr ''storageAccountResourceId'', PStr ''storageAccountName'',
    PStr ''useAppInsights'', PStr ''appInsightsLocation''}
     \<inter> set (dict_keys (arm_parameters (projr ?v4))) = {}"
    by (rule mp [OF conjunct2 [OF inst4] e4])
  show ?thesis
    by (rule conjI [OF i3 conjI [OF k3 conjI [OF i4 k4]]])
qed

lemma dict_setitem_values:
  "(k, v) \<in> set (dict_setitem d k' v') \<Longrightarrow> v = v' \<or> (k, v) \<in> set d"
  by (induction d) (auto split: if_splits)

lemma of_optional_not_dict [simp]: "\<not> is_dict (of_optional x)"
  by (cases x) simp_all

lemma arm_template_parameters_values:
  "(k, v) \<in> set (arm_template_parameters subscription_id resource_group_name resource_name
          kind appid password location sku_name site_name zip_url) \<Longrightarrow> \<not> is_dict v"
  by (auto simp: arm_template_parameters_def)

lemma v3_parameters_values:
  assumes "(k, v) \<in> set (v3_parameters paramsdict resource_name storageAccountName appInsightsLocation)"
  shows "\<not> is_dict v \<or> (k, v) \<in> set paramsdict"
  using assms unfolding v3_parameters_def Let_def
  by (auto simp del: dict_setitem.simps split: if_splits dest!: dict_setitem_values)

lemma create_app_parameters:
  assumes "create_app response subscription_id resource_group_name resource_name description kind
      appid password storageAccountName location sku_name appInsightsLocation language version
      = Inr deployment"
  shows "\<exists>paramsdict.
           arm_parameters deployment =
             map (\<lambda>(k, v). (k, PDict [(PStr ''value'', v)])) paramsdict \<and>
           (\<forall>(k, v) \<in> set paramsdict. \<not> is_dict v)"
proof -
  let ?kind = "if kind = ''webapp'' then ''sdk'' else kind"
  obtain zip_url template_name where
    r: "retrieve_bot_template_link response version language ?kind = Inr (zip_url, template_name)"
    using assms
    by (cases "retrieve_bot_template_link response version language ?kind")
       (auto simp: create_app_def Let_def)
  obtain site_name where s: "derive_site_name resource_name = Inr site_name"
    using assms r
    by (cases "derive_site_name resource_name") (auto simp: create_app_def Let_def)
  let ?p1 = "arm_template_parameters subscription_id resource_group_name resource_name
               ?kind appid password location sku_name site_name zip_url"
  let ?p2 = "if truthy (of_optional description)
             then dict_setitem ?p1 (PStr ''description'') (of_optional description) else ?p1"
  let ?p3 = "if version = ''v3''
             then v3_parameters ?p2 resource_name storageAccountName appInsightsLocation
             else ?p2"
  have p1: "\<not> is_dict v" if "(k, v) \<in> set ?p1" for k v
    using that by (rule arm_template_parameters_values)
  have p2: "\<not> is_dict v" if "(k, v) \<in> set ?p2" for k v
  proof (cases "truthy (of_optional description)")
    case True
    with that have "v = of_optional description \<or> (k, v) \<in> set ?p1"
      by (simp del: dict_setitem.simps add: dict_setitem_values)
    then show ?thesis using p1 by auto
  next
    case False
    with that p1 show ?thesis by simp
  qed
  have p3: "\<not> is_dict v" if "(k, v) \<in> set ?p3" for k v
  proof (cases "version = ''v3''")
    case True
    with that have "(k, v) \<in> set (v3_parameters ?p2 resource_name storageAccountName
                                   appInsightsLocation)"
      by simp
    then have "\<not> is_dict v \<or> (k, v) \<in> set ?p2"
      by (rule v3_parameters_values)
    then show ?thesis using p2 by blast
  next
    case False
    with that have "(k, v) \<in> set ?p2" by simp
    then show ?thesis by (rule p2)
  qed
  have "arm_parameters deployment = map (\<lambda>(k, v). (k, PDict [(PStr ''value'', v)])) ?p3"
    using assms unfolding create_app_def Let_def r s sum.case prod.case
    by (cases "version = ''v3''") (auto simp del: dict_setitem.simps)
  with p3 show ?thesis by blast
qed

text \<open>
  Claim C8. Every value of the parameter map that \<^verbatim>\<open>create_app\<close> builds is the raw value
  wrapped once: it is the dictionary with the single key \<^verbatim>\<open>value\<close>, and the raw value
  under that key is not a dictionary itself.
\<close>

theorem values_wrapped_once:
  assumes "create_app response subscription_id resource_group_name resource_name description kind
      appid password storageAccountName location sku_name appInsightsLocation language version
      = Inr deployment"
    and "(k, w) \<in> set (arm_parameters deployment)"
  shows "\<exists>raw. w = PDict [(PStr ''value'', raw)] \<and> \<not> is_dict raw"
proof -
  from create_app_parameters [OF assms(1)] obtain paramsdict where
    m: "arm_parameters deployment = map (\<lambda>(k, v). (k, PDict [(PStr ''value'', v)])) paramsdict"
    and n: "\<forall>(k, v) \<in> set paramsdict. \<not> is_dict v"
    by blast
  from assms(2) m obtain k' v where "(k', v) \<in> set paramsdict" and "w = PDict [(PStr ''value'', v)]"
    by auto
  with n show ?thesis by auto
qed

theorem values_wrapped_once_witness:
  "\<not> isl (create_app \<lparr>status_code = 200, response_text = ''https://cdn/''\<rparr> ''sub'' ''rg''
       ''My--Bot---'' None ''webapp'' ''id'' (Some ''pw'') None ''Central US'' ''F0''
       ''South Central US'' ''Csharp'' ''v3'') \<and>
   (PStr ''siteName'', PDict [(PStr ''value'', PStr ''my--bot'')])
     \<in> set (arm_parameters (projr
         (create_app \<lparr>status_code = 200, response_text = ''https://cdn/''\<rparr> ''sub'' ''rg''
            ''My--Bot---'' None ''webapp'' ''id'' (Some ''pw'') None ''Central US'' ''F0''
            ''South Central US'' ''Csharp'' ''v3''))) \<and>
   (\<exists>raw. PDict [(PStr ''value'', PStr ''my--bot'')] = PDict [(PStr ''value'', raw)] \<and>
          \<not> is_dict raw)"
proof -
  let ?v3 = "create_app \<lparr>status_code = 200, response_text = ''https://cdn/''\<rparr> ''sub'' ''rg''
       ''My--Bot---'' None ''webapp'' ''id'' (Some ''pw'') None ''Central US'' ''F0''
       ''South Central US'' ''Csharp'' ''v3''"
  have i3: "\<not> isl ?v3" by code_simp
  from i3 have e3: "?v3 = Inr (projr ?v3)" by (cases ?v3) simp_all
  have m: "(PStr ''siteName'', PDict [(PStr ''value'', PStr ''my--bot'')])
             \<in> set (arm_parameters (projr ?v3))"
    by code_simp
  show ?thesis
    by (rule conjI [OF i3 conjI [OF m values_wrapped_once [OF e3 m]]])
qed

subsection \<open>The parameter merge\<close>

lemma key_eq_refl [simp]: "key_eq k k"
  by (simp add: key_eq_def split: option.splits)

lemma key_eq_sym: "key_eq a b \<Longrightarrow> key_eq b a"
  by (auto simp: key_eq_def split: option.splits)

lemma key_eq_trans: "key_eq a b \<Longrightarrow> key_eq b c \<Longrightarrow> key_eq a c"
  by (auto simp: key_eq_def split: option.splits)

lemma key_eq_cong: "key_eq a b \<Longrightarrow> key_eq a c = key_eq b c"
  using key_eq_sym key_eq_trans by blast

lemma dict_lookup_setitem:
  "dict_lookup (dict_setitem d k v) k' = (if key_eq k k' then Some v else dict_lookup d k')"
proof (induction d)
  case Nil
  show ?case by simp
next
  case (Cons a d)
  obtain k0 v0 where a: "a = (k0, v0)" by (cases a)
  show ?case
  proof (cases "key_eq k0 k")
    case True
    then show ?thesis using key_eq_cong [OF True, of k'] by (simp add: a)
  next
    case False
    then show ?thesis
      using Cons key_eq_trans [of k0 k' k] key_eq_sym [of k k'] by (auto simp: a)
  qed
qed

lemma dict_lookup_append:
  "dict_lookup (xs @ ys) k =
     (case dict_lookup xs k of Some v \<Rightarrow> Some v | None \<Rightarrow> dict_lookup ys k)"
  by (induction xs) auto

lemma dict_lookup_merge_items:
  "dict_lookup (merge_items d kvs) k =
     (case dict_lookup (rev kvs) k of Some v \<Rightarrow> Some v | None \<Rightarrow> dict_lookup d k)"
proof (induction kvs arbitrary: d)
  case Nil
  show ?case by simp
next
  case (Cons a kvs)
  obtain k0 v0 where a: "a = (k0, v0)" by (cases a)
  show ?case
    by (simp add: a Cons dict_lookup_append dict_lookup_setitem split: option.splits)
qed

lemma process_items_step:
  assumes "object_or_unparsable parse raw"
  shows "process_items parse acc (raw # rest) =
           process_items parse (merge_items acc (entry_object parse raw)) rest"
  using assms
  by (auto simp: object_or_unparsable_def entry_object_def try_parse_json_object_def
        py_get_def dict_update_def
        split: sum.splits error.splits pyval.splits option.splits)

lemma process_items_merge:
  assumes "\<forall>raw \<in> set items. object_or_unparsable parse raw"
  shows "process_items parse acc items =
           Inr (foldl (\<lambda>acc raw. merge_items acc (entry_object parse raw)) acc items)"
  using assms
proof (induction items arbitrary: acc)
  case Nil
  show ?case by simp
next
  case (Cons raw items)
  then show ?case by (simp add: process_items_step del: process_items.simps(2))
qed

lemma process_lists_merge:
  assumes "\<forall>raw \<in> set (concat ls). object_or_unparsable parse raw"
  shows "process_lists parse acc ls =
           Inr (foldl (\<lambda>acc raw. merge_items acc (entry_object parse raw)) acc (concat ls))"
  using assms
proof (induction ls arbitrary: acc)
  case Nil
  show ?case by simp
next
  case (Cons params ls)
  then show ?case by (simp add: process_items_merge)
qed

lemma dict_lookup_foldl_merge:
  "dict_lookup (foldl (\<lambda>acc raw. merge_items acc (entry_object parse raw)) acc items) k =
     (case merged_lookup parse items k of Some v \<Rightarrow> Some v | None \<Rightarrow> dict_lookup acc k)"
  by (induction items arbitrary: acc)
     (auto simp: dict_lookup_merge_items split: option.splits)

text \<open>
  Claim C5, as amended. For every list of parameter lists whose entries are unparsable
  (the parser raises \<^verbatim>\<open>CLIError\<close>) or parse to an object whose \<^verbatim>\<open>parameters\<close> member,
  when present, is an object, the merge does not raise, and a key of the result has the value that the last
  entry binding it gives: the entry's nested object under \<^verbatim>\<open>parameters\<close> when present,
  the parsed object itself otherwise, nothing for an unparsable entry. In particular
  \<^verbatim>\<open>[["{\"parameters\":{\"a\":1}}"], ["{\"a\":2,\"b\":3}"], ["not json"]]\<close> yields
  \<^verbatim>\<open>{"a":2,"b":3}\<close>, for every parser that reads the first two strings as JSON and raises
  \<^verbatim>\<open>CLIError\<close> on the third.
\<close>

theorem merge_parameter_sources:
  "((\<forall>raw \<in> set (concat parameter_lists). object_or_unparsable parse raw) \<longrightarrow>
      (\<exists>merged. process_parameters parse (Some parameter_lists) = Inr merged \<and>
         (\<forall>k. dict_lookup merged k = merged_lookup parse (concat parameter_lists) k))) \<and>
   (parse ''{\"parameters\":{\"a\":1}}'' =
        Inr (PDict [(PStr ''parameters'', PDict [(PStr ''a'', PInt 1)])]) \<and>
    parse ''{\"a\":2,\"b\":3}'' = Inr (PDict [(PStr ''a'', PInt 2), (PStr ''b'', PInt 3)]) \<and>
    parse ''not json'' = Inl (CLIError msg) \<longrightarrow>
      process_parameters parse
        (Some [[''{\"parameters\":{\"a\":1}}''], [''{\"a\":2,\"b\":3}''], [''not json'']]) =
      Inr [(PStr ''a'', PInt 2), (PStr ''b'', PInt 3)])"
proof (intro conjI impI)
  assume wf: "\<forall>raw \<in> set (concat parameter_lists). object_or_unparsable parse raw"
  let ?merged = "foldl (\<lambda>acc raw. merge_items acc (entry_object parse raw)) []
                   (concat parameter_lists)"
  have "process_parameters parse (Some parameter_lists) = Inr ?merged"
    by (simp add: process_parameters_def process_lists_merge [OF wf])
  moreover have "\<forall>k. dict_lookup ?merged k = merged_lookup parse (concat parameter_lists) k"
    by (simp add: dict_lookup_foldl_merge split: option.splits)
  ultimately show "\<exists>merged. process_parameters parse (Some parameter_lists) = Inr merged \<and>
         (\<forall>k. dict_lookup merged k = merged_lookup parse (concat parameter_lists) k)"
    by blast
next
  assume "parse ''{\"parameters\":{\"a\":1}}'' =
        Inr (PDict [(PStr ''parameters'', PDict [(PStr ''a'', PInt 1)])]) \<and>
    parse ''{\"a\":2,\"b\":3}'' = Inr (PDict [(PStr ''a'', PInt 2), (PStr ''b'', PInt 3)]) \<and>
    parse ''not json'' = Inl (CLIError msg)"
  then show "process_parameters parse
        (Some [[''{\"parameters\":{\"a\":1}}''], [''{\"a\":2,\"b\":3}''], [''not json'']]) =
      Inr [(PStr ''a'', PInt 2), (PStr ''b'', PInt 3)]"
    by (simp add: process_parameters_def try_parse_json_object_def py_get_def dict_update_def
          key_eq_def)
qed


theorem merge_parameter_sources_witness:
  "list_all (object_or_unparsable example_parser)
     (concat [[''{\"parameters\":{\"a\":1}}''], [''{\"a\":2,\"b\":3}''], [''not json'']]) \<and>
   example_parser ''not json'' = Inl (CLIError ''Expecting value: line 1 column 1 (char 0)'') \<and>
   process_parameters example_parser
     (Some [[''{\"parameters\":{\"a\":1}}''], [''{\"a\":2,\"b\":3}''], [''not json'']]) =
   Inr [(PStr ''a'', PInt 2), (PStr ''b'', PInt 3)] \<and>
   merged_lookup example_parser
     (concat [[''{\"parameters\":{\"a\":1}}''], [''{\"a\":2,\"b\":3}''], [''not json'']])
     (PStr ''a'') = Some (PInt 2)"
proof -
  let ?L = "[[''{\"parameters\":{\"a\":1}}''], [''{\"a\":2,\"b\":3}''], [''not json'']]"
  have wf: "\<forall>raw \<in> set (concat ?L). object_or_unparsable example_parser raw"
    by (simp add: object_or_unparsable_def example_parser_def key_eq_def)
  have p1: "example_parser ''{\"parameters\":{\"a\":1}}'' =
              Inr (PDict [(PStr ''parameters'', PDict [(PStr ''a'', PInt 1)])])"
    by (simp add: example_parser_def)
  have p2: "example_parser ''{\"a\":2,\"b\":3}'' =
              Inr (PDict [(PStr ''a'', PInt 2), (PStr ''b'', PInt 3)])"
    by (simp add: example_parser_def)
  have p3: "example_parser ''not json'' =
              Inl (CLIError ''Expecting value: line 1 column 1 (char 0)'')"
    by (simp add: example_parser_def)
  note inst = merge_parameter_sources
    [of ?L example_parser "''Expecting value: line 1 column 1 (char 0)''"]
  from mp [OF conjunct1 [OF inst] wf] obtain merged where
    m: "process_parameters example_parser (Some ?L) = Inr merged"
    and l: "\<forall>k. dict_lookup merged k = merged_lookup example_parser (concat ?L) k"
    by (elim exE conjE)
  have e: "process_parameters example_parser (Some ?L) =
             Inr [(PStr ''a'', PInt 2), (PStr ''b'', PInt 3)]"
    by (rule mp [OF conjunct2 [OF inst] conjI [OF p1 conjI [OF p2 p3]]])
  from m e have merged: "merged = [(PStr ''a'', PInt 2), (PStr ''b'', PInt 3)]" by simp
  from l have "dict_lookup merged (PStr ''a'') =
                 merged_lookup example_parser (concat ?L) (PStr ''a'')"
    by (rule spec)
  moreover have "dict_lookup merged (PStr ''a'') = Some (PInt 2)"
    unfolding merged by (simp add: key_eq_def)
  ultimately have a: "merged_lookup example_parser (concat ?L) (PStr ''a'') = Some (PInt 2)"
    by (simp only:)
  from wf have w: "list_all (object_or_unparsable example_parser) (concat ?L)"
    by (simp only: list_all_iff)
  show ?thesis
    by (rule conjI [OF w conjI [OF p3 conjI [OF e a]]])
qed

text \<open>
  Claim C5 as stated, for every list of parameter lists, does not hold: an entry that
  parses to the number \<^verbatim>\<open>5\<close> is not merged but makes \<^verbatim>\<open>parsed.get\<close> of line 167 raise
  \<^verbatim>\<open>AttributeError\<close>, and an entry whose \<^verbatim>\<open>parameters\<close> member is the number \<^verbatim>\<open>5\<close> makes
  \<^verbatim>\<open>parameters.update\<close> of line 176 raise \<^verbatim>\<open>TypeError\<close>; neither is caught.
\<close>

theorem merge_non_object_counterexample:
  "process_parameters example_parser (Some [[''5'']]) = Inl AttributeError \<and>
   process_parameters example_parser (Some [[''{\"parameters\":5}'']]) = Inl TypeError"
  by (simp add: process_parameters_def try_parse_json_object_def py_get_def dict_update_def
        example_parser_def)

lemma process_items_append:
  "process_items parse acc (xs @ ys) =
     (case process_items parse acc xs of
        Inl e \<Rightarrow> Inl e
      | Inr acc' \<Rightarrow> process_items parse acc' ys)"
  by (induction xs arbitrary: acc) (auto split: sum.splits)

lemma process_lists_append:
  "process_lists parse acc (xs @ ys) =
     (case process_lists parse acc xs of
        Inl e \<Rightarrow> Inl e
      | Inr acc' \<Rightarrow> process_lists parse acc' ys)"
  by (induction xs arbitrary: acc) (auto split: sum.splits)

lemma process_items_skip:
  assumes "parse item = Inl (CLIError msg) \<or>
           (parse item = Inr (PDict d) \<and>
            \<not> truthy (case dict_lookup d (PStr ''parameters'') of
                        None \<Rightarrow> PDict d | Some v \<Rightarrow> v))"
  shows "process_items parse acc (item # rest) = process_items parse acc rest"
  using assms by (auto simp: try_parse_json_object_def py_get_def)

text \<open>
  Claim C10, as amended. The merge skips not only the entries on which the parser raises
  \<^verbatim>\<open>CLIError\<close> but every entry that parses to an object whose merged value, the
  \<^verbatim>\<open>parameters\<close> member when present and the object itself otherwise, is falsy (such as
  \<^verbatim>\<open>{}\<close>): removing such an entry from its list changes neither the merged map nor
  whether the merge raises.
\<close>

theorem falsy_entry_skipped:
  assumes "parse item = Inl (CLIError msg) \<or>
           (parse item = Inr (PDict d) \<and>
            \<not> truthy (case dict_lookup d (PStr ''parameters'') of
                        None \<Rightarrow> PDict d | Some v \<Rightarrow> v))"
  shows "process_parameters parse (Some (lists1 @ (items1 @ item # items2) # lists2)) =
         process_parameters parse (Some (lists1 @ (items1 @ items2) # lists2))"
proof -
  have "process_items parse acc (items1 @ item # items2) =
        process_items parse acc (items1 @ items2)" for acc
    by (simp add: process_items_append process_items_skip [of parse item msg d, OF assms]
          del: process_items.simps(2) split: sum.splits)
  then have "process_lists parse acc ((items1 @ item # items2) # lists2) =
             process_lists parse acc ((items1 @ items2) # lists2)" for acc
    by simp
  then show ?thesis
    by (simp add: process_parameters_def process_lists_append del: process_lists.simps(2)
          split: sum.splits)
qed

theorem falsy_entry_skipped_witness:
  "example_parser ''{}'' = Inr (PDict []) \<and>
   \<not> truthy (case dict_lookup [] (PStr ''parameters'') of
               None \<Rightarrow> PDict [] | Some v \<Rightarrow> v) \<and>
   process_parameters example_parser
     (Some ([[''{\"parameters\":{\"a\":1}}'']] @ ([] @ ''{}'' # [''{\"a\":2,\"b\":3}'']) # [])) =
   process_parameters example_parser
     (Some ([[''{\"parameters\":{\"a\":1}}'']] @ ([] @ [''{\"a\":2,\"b\":3}'']) # []))"
proof -
  have p: "example_parser ''{}'' = Inr (PDict [])"
    by (simp add: example_parser_def)
  have t: "\<not> truthy (case dict_lookup [] (PStr ''parameters'') of
               None \<Rightarrow> PDict [] | Some v \<Rightarrow> v)"
    by simp
  have h: "example_parser ''{}'' = Inl (CLIError []) \<or>
           (example_parser ''{}'' = Inr (PDict []) \<and>
            \<not> truthy (case dict_lookup [] (PStr ''parameters'') of
                        None \<Rightarrow> PDict [] | Some v \<Rightarrow> v))"
    using p t by (intro disjI2 conjI)
  note inst = falsy_entry_skipped
    [of example_parser "''{}''" "[]" "[]" "[[''{\"parameters\":{\"a\":1}}'']]" "[]"
        "[''{\"a\":2,\"b\":3}'']" "[]", OF h]
  show ?thesis
    by (rule conjI [OF p conjI [OF t inst]])
qed

text \<open>
  Claim C10 as stated does not hold for the entries that parse to \<^verbatim>\<open>0\<close>, \<^verbatim>\<open>false\<close> or
  \<^verbatim>\<open>null\<close>: these values have no \<^verbatim>\<open>get\<close> method, and the \<^verbatim>\<open>AttributeError\<close> of line 167
  is not caught, where the merge without the entry returns the empty map.
\<close>

theorem falsy_non_object_counterexample:
  "process_parameters example_parser (Some [[''0'']]) = Inl AttributeError \<and>
   process_parameters example_parser (Some [[''false'']]) = Inl AttributeError \<and>
   process_parameters example_parser (Some [[''null'']]) = Inl AttributeError \<and>
   process_parameters example_parser (Some [[]]) = Inr []"
  by (simp add: process_parameters_def try_parse_json_object_def py_get_def example_parser_def)

end
